theory Spec2Isabelle
  imports Complex_Main "HOL-Library.Char_ord" "HOL-Library.List_Lexorder"
begin

section \<open>Numbers, patterns and trends (hooks/useExerciseConsistency)\<close>

text \<open>
  Numbers are IEEE 754 doubles. Day counts are the integers that \<^verbatim>\<open>Math.ceil\<close> produces and
  medians are halves of such integers; doubles hold them, their sums, differences and halves
  exactly, so they are kept as integers and exact rationals. A quotient or a product that a
  double cannot hold is rounded to the nearest double, ties to the even significand:
  \<open>binary64\<close> rounds a rational to 53 significant bits. The exponent range of a double is
  not modelled; day counts and percentages stay far inside it. \<^verbatim>\<open>Math.round\<close> rounds the
  value of a double to the nearest integer, halves upwards, which is \<^const>\<open>round\<close>.
  \<^verbatim>\<open>[...xs].sort((a, b) => a - b)\<close> on numbers is the ascending sort; the sort of
  \<^verbatim>\<open>restDaysData\<close> by \<^verbatim>\<open>date.getTime()\<close> is stable, as \<^const>\<open>sort_key\<close> is.
\<close>

text \<open>The number of binary digits of a positive integer.\<close>

function bitLength :: "int \<Rightarrow> int" where
  "bitLength n = (if n \<le> 0 then 0 else 1 + bitLength (n div 2))"
  by pat_completeness auto
termination
  by (relation "measure nat") auto

declare bitLength.simps [simp del]

definition pow2 :: "int \<Rightarrow> rat" where
  "pow2 e = (if 0 \<le> e then 2 ^ nat e else 1 / 2 ^ nat (- e))"

text \<open>For a positive \<open>a\<close>, the integer \<open>k\<close> with \<open>pow2 k \<le> a < pow2 (k + 1)\<close>.\<close>

definition ilog2 :: "rat \<Rightarrow> int" where
  "ilog2 a = (if 1 \<le> a then bitLength \<lfloor>a\<rfloor> - 1 else - bitLength (\<lceil>1 / a\<rceil> - 1))"

definition roundHalfEven :: "rat \<Rightarrow> int" where
  "roundHalfEven y =
     (let f = \<lfloor>y\<rfloor>;
          r = y - of_int f
      in if r < 1 / 2 then f
         else if 1 / 2 < r then f + 1
         else if even f then f else f + 1)"

definition binary64 :: "rat \<Rightarrow> rat" where
  "binary64 x =
     (if x = 0 then 0
      else let e = ilog2 \<bar>x\<bar> - 52
           in sgn x * of_int (roundHalfEven (\<bar>x\<bar> / pow2 e)) * pow2 e)"

datatype ConsistencyPattern = Stable | Variable | Irregular

datatype TrendDirection = Improving | Declining | StableTrend | Insufficient

datatype PeriodType = FourMonths | CurrentYear | LastYear

text \<open>\<^verbatim>\<open>RestDaysData\<close>: the time value of the later session and the gap in days.\<close>

record RestDaysData =
  date :: int
  days :: int

record Trend =
  direction :: TrendDirection
  percentageChange :: int
  recentMedian :: rat
  pastMedian :: rat

definition calculateMedian :: "int list \<Rightarrow> rat" where
  "calculateMedian values =
     (if length values = 0 then 0
      else let sorted = sort values;
               mid = length sorted div 2
           in if length sorted mod 2 = 0
              then (of_int (sorted ! (mid - 1)) + of_int (sorted ! mid)) / 2
              else of_int (sorted ! mid))"

definition getConsistencyPattern :: "int list \<Rightarrow> ConsistencyPattern" where
  "getConsistencyPattern restDays =
     (if length restDays < 2 then Stable
      else let sorted = sort restDays;
               q1Index = nat \<lfloor>rat_of_nat (length sorted) * (1 / 4)\<rfloor>;
               q3Index = nat \<lfloor>rat_of_nat (length sorted) * (3 / 4)\<rfloor>;
               q1 = sorted ! q1Index;
               q3 = sorted ! q3Index;
               iqr = q3 - q1
           in if iqr \<le> 2 then Stable
              else if iqr \<le> 7 then Variable
              else Irregular)"

definition calculateTrend :: "RestDaysData list \<Rightarrow> PeriodType \<Rightarrow> Trend option" where
  "calculateTrend restDaysData period =
     (if period \<noteq> FourMonths \<or> length restDaysData < 4 then None
      else let sorted = sort_key date restDaysData;
               midPoint = length sorted div 2;
               recentData = drop midPoint sorted;
               pastData = take midPoint sorted
           in if length recentData < 2 \<or> length pastData < 2
              then Some \<lparr>direction = Insufficient,
                         percentageChange = 0,
                         recentMedian = calculateMedian (map days recentData),
                         pastMedian = calculateMedian (map days pastData)\<rparr>
              else let recentMedian = calculateMedian (map days recentData);
                       pastMedian = calculateMedian (map days pastData);
                       percentageChange =
                         (if pastMedian > 0
                          then round (binary64
                                 (binary64 ((pastMedian - recentMedian) / pastMedian) * 100))
                          else 0);
                       direction =
                         (if percentageChange > 10 then Improving
                          else if percentageChange < - 10 then Declining
                          else StableTrend)
                   in Some \<lparr>direction = direction,
                             percentageChange = percentageChange,
                             recentMedian = recentMedian,
                             pastMedian = pastMedian\<rparr>)"

section \<open>The host's Date object\<close>

text \<open>
  A \<^verbatim>\<open>Date\<close> is its time value: milliseconds since the epoch, or \<^verbatim>\<open>NaN\<close> for an
  \<^verbatim>\<open>Invalid Date\<close>, here \<^const>\<open>None\<close>. Local time is read in a host time zone of offset
  zero without daylight saving (the calendar-day policy the engine leaves to the host), and
  time values stay inside the range a \<^verbatim>\<open>Date\<close> can hold. The calendar is the proleptic
  Gregorian one; \<^verbatim>\<open>civil_from_days\<close> and \<^verbatim>\<open>days_from_civil\<close> convert between a day number
  and (year, month 1..12, day of month).
\<close>

definition msPerDay :: int where
  "msPerDay = 1000 * 60 * 60 * 24"

definition Day :: "int \<Rightarrow> int" where
  "Day t = t div msPerDay"

definition TimeWithinDay :: "int \<Rightarrow> int" where
  "TimeWithinDay t = t mod msPerDay"

definition civil_from_days :: "int \<Rightarrow> int \<times> int \<times> int" where
  "civil_from_days z0 =
     (let z = z0 + 719468;
          era = z div 146097;
          doe = z mod 146097;
          yoe = (doe - doe div 1460 + doe div 36524 - doe div 146096) div 365;
          doy = doe - (365 * yoe + yoe div 4 - yoe div 100);
          mp = (5 * doy + 2) div 153;
          d = doy - (153 * mp + 2) div 5 + 1;
          m = (if mp < 10 then mp + 3 else mp - 9);
          y = yoe + era * 400 + (if m \<le> 2 then 1 else 0)
      in (y, m, d))"

definition days_from_civil :: "int \<Rightarrow> int \<Rightarrow> int \<Rightarrow> int" where
  "days_from_civil y0 m d =
     (let y = y0 - (if m \<le> 2 then 1 else 0);
          era = y div 400;
          yoe = y mod 400;
          doy = (153 * (if m > 2 then m - 3 else m + 9) + 2) div 5 + d - 1;
          doe = yoe * 365 + yoe div 4 - yoe div 100 + doy
      in era * 146097 + doe - 719468)"

definition getFullYear :: "int \<Rightarrow> int" where
  "getFullYear t = fst (civil_from_days (Day t))"

text \<open>\<^verbatim>\<open>getMonth\<close> counts from 0 (January).\<close>

definition getMonth :: "int \<Rightarrow> int" where
  "getMonth t = fst (snd (civil_from_days (Day t))) - 1"

definition getDate :: "int \<Rightarrow> int" where
  "getDate t = snd (snd (civil_from_days (Day t)))"

text \<open>\<^verbatim>\<open>getDay\<close>: 0 is Sunday; the epoch day was a Thursday.\<close>

definition getDay :: "int \<Rightarrow> int" where
  "getDay t = (Day t + 4) mod 7"

text \<open>
  \<^verbatim>\<open>MakeDay\<close> lets the month and the day of month overflow into the neighbouring years and
  months, as \<^verbatim>\<open>setMonth\<close>, \<^verbatim>\<open>setDate\<close> and the \<^verbatim>\<open>Date\<close> constructor do.
\<close>

definition MakeDay :: "int \<Rightarrow> int \<Rightarrow> int \<Rightarrow> int" where
  "MakeDay year month dt = days_from_civil (year + month div 12) (month mod 12 + 1) 1 + dt - 1"

text \<open>\<^verbatim>\<open>new Date(year, month, day, hours, minutes, seconds)\<close>; years 0 to 99 mean 1900 to 1999.\<close>

definition Date_local :: "int \<Rightarrow> int \<Rightarrow> int \<Rightarrow> int \<Rightarrow> int \<Rightarrow> int \<Rightarrow> int" where
  "Date_local year month dt hours minutes seconds =
     MakeDay (if 0 \<le> year \<and> year \<le> 99 then 1900 + year else year) month dt * msPerDay
       + hours * 3600000 + minutes * 60000 + seconds * 1000"

definition setMonth :: "int \<Rightarrow> int \<Rightarrow> int" where
  "setMonth t month = MakeDay (getFullYear t) month (getDate t) * msPerDay + TimeWithinDay t"

definition setDate :: "int \<Rightarrow> int \<Rightarrow> int" where
  "setDate t dt = MakeDay (getFullYear t) (getMonth t) dt * msPerDay + TimeWithinDay t"

text \<open>\<^verbatim>\<open>setHours(0, 0, 0, 0)\<close>.\<close>

definition setHours0 :: "int \<Rightarrow> int" where
  "setHours0 t = Day t * msPerDay"

definition weekdayName :: "int \<Rightarrow> string" where
  "weekdayName wd = [''Sun'', ''Mon'', ''Tue'', ''Wed'', ''Thu'', ''Fri'', ''Sat''] ! nat wd"

definition monthName :: "int \<Rightarrow> string" where
  "monthName m = [''Jan'', ''Feb'', ''Mar'', ''Apr'', ''May'', ''Jun'',
                  ''Jul'', ''Aug'', ''Sep'', ''Oct'', ''Nov'', ''Dec''] ! nat m"

text \<open>The decimal digits of a number that is not negative, padded with zeros to a width.\<close>

definition digitChar :: "int \<Rightarrow> char" where
  "digitChar n = ''0123456789'' ! nat n"

function decimal :: "int \<Rightarrow> string" where
  "decimal n = (if n < 10 then [digitChar n] else decimal (n div 10) @ [digitChar (n mod 10)])"
  by pat_completeness auto
termination
  by (relation "measure nat") auto

definition zeroPadded :: "int \<Rightarrow> nat \<Rightarrow> string" where
  "zeroPadded n width = replicate (width - length (decimal n)) (CHR ''0'') @ decimal n"

text \<open>\<^verbatim>\<open>toDateString\<close>, for instance \<^verbatim>\<open>Thu Jan 04 2024\<close>.\<close>

definition toDateString :: "int option \<Rightarrow> string" where
  "toDateString d =
     (case d of
        None \<Rightarrow> ''Invalid Date''
      | Some t \<Rightarrow>
          weekdayName (getDay t) @ '' '' @ monthName (getMonth t) @ '' ''
            @ zeroPadded (getDate t) 2 @ '' ''
            @ (if getFullYear t < 0 then ''-'' else []) @ zeroPadded \<bar>getFullYear t\<bar> 4)"

text \<open>
  Relational operators on dates compare time values; every comparison with \<^verbatim>\<open>NaN\<close> is
  false.
\<close>

definition date_ge :: "int option \<Rightarrow> int \<Rightarrow> bool" where
  "date_ge a b = (case a of None \<Rightarrow> False | Some t \<Rightarrow> b \<le> t)"

definition date_le :: "int option \<Rightarrow> int \<Rightarrow> bool" where
  "date_le a b = (case a of None \<Rightarrow> False | Some t \<Rightarrow> t \<le> b)"


section \<open>Workouts (types)\<close>

text \<open>
  The \<^verbatim>\<open>date\<close> of a stored workout is a \<^verbatim>\<open>Date\<close>, a string (after a round trip through
  JSON) or missing. What the host's \<^verbatim>\<open>new Date(string)\<close> makes of a string, and the current
  time, are parameters of every computation.
\<close>

datatype DateInput = DateObject "int option" | DateString string | DateUndefined


text \<open>A set; \<^verbatim>\<open>duration\<close> is an optional string of the form \<^verbatim>\<open>MM:SS\<close>.\<close>

record WorkoutSet =
  exerciseId :: string
  reps :: int
  duration :: "string option"

record Workout =
  wdate :: DateInput
  sets :: "WorkoutSet list"

record host =
  Date_parse :: "string \<Rightarrow> int option"
  now :: int

text \<open>\<^verbatim>\<open>new Date(workout.date)\<close>.\<close>

definition Date_new :: "host \<Rightarrow> DateInput \<Rightarrow> int option" where
  "Date_new h x =
     (case x of
        DateObject t \<Rightarrow> t
      | DateString s \<Rightarrow> Date_parse h s
      | DateUndefined \<Rightarrow> None)"

section \<open>Durations (utils/durationUtils)\<close>






section \<open>Rest days, consistency and year comparison (hooks/useExerciseConsistency)\<close>

text \<open>
  \<^verbatim>\<open>safeParseDate\<close>: a \<^verbatim>\<open>Date\<close> is copied, a string goes through \<^verbatim>\<open>new Date(string)\<close>, anything
  else gives the current time. The variant inside the statistics component wraps the same
  three branches in \<^verbatim>\<open>try\<close>/\<^verbatim>\<open>catch\<close> with \<^verbatim>\<open>return new Date()\<close> as handler; no branch throws
  (\<^verbatim>\<open>new Date(string)\<close> answers an unparseable string with an \<^verbatim>\<open>Invalid Date\<close>), so both
  variants compute this function.
\<close>

definition safeParseDate :: "host \<Rightarrow> DateInput \<Rightarrow> int option" where
  "safeParseDate h dateInput =
     (case dateInput of
        DateObject t \<Rightarrow> t
      | DateString s \<Rightarrow> Date_parse h s
      | DateUndefined \<Rightarrow> Some (now h))"

definition filterWorkoutsByPeriod :: "host \<Rightarrow> Workout list \<Rightarrow> PeriodType \<Rightarrow> Workout list" where
  "filterWorkoutsByPeriod h workouts period =
     (let currentYear = getFullYear (now h)
      in case period of
           FourMonths \<Rightarrow>
             (let fourMonthsAgo = setHours0 (setMonth (now h) (getMonth (now h) - 4))
              in filter (\<lambda>workout. date_ge (safeParseDate h (wdate workout)) fourMonthsAgo) workouts)
         | CurrentYear \<Rightarrow>
             (let startOfYear = Date_local currentYear 0 1 0 0 0
              in filter (\<lambda>workout. date_ge (safeParseDate h (wdate workout)) startOfYear) workouts)
         | LastYear \<Rightarrow>
             (let startOfLastYear = Date_local (currentYear - 1) 0 1 0 0 0;
                  endOfLastYear = Date_local (currentYear - 1) 11 31 23 59 59
              in filter (\<lambda>workout.
                      let date = safeParseDate h (wdate workout)
                      in date_ge date startOfLastYear \<and> date_le date endOfLastYear) workouts))"

text \<open>\<^verbatim>\<open>workout.sets.some(set => set.exerciseId === exerciseId)\<close>.\<close>

definition hasExercise :: "string \<Rightarrow> Workout \<Rightarrow> bool" where
  "hasExercise exerciseId' workout = list_ex (\<lambda>set. exerciseId set = exerciseId') (sets workout)"

text \<open>The body of the loop of \<^verbatim>\<open>calculateRestDays\<close>: both dates are reset to their midnight.\<close>

definition diffDays :: "int \<Rightarrow> int \<Rightarrow> int" where
  "diffDays current previous =
     (let d1 = Date_local (getFullYear current) (getMonth current) (getDate current) 0 0 0;
          d2 = Date_local (getFullYear previous) (getMonth previous) (getDate previous) 0 0 0;
          diffTime = \<bar>d1 - d2\<bar>
      in \<lceil>rat_of_int diffTime / rat_of_int (1000 * 60 * 60 * 24)\<rceil>)"

fun restDaysLoop :: "int list \<Rightarrow> RestDaysData list" where
  "restDaysLoop (previous # current # rest) =
     \<lparr>date = current, days = diffDays current previous\<rparr> # restDaysLoop (current # rest)"
| "restDaysLoop sessions = []"

text \<open>
  The sessions are sorted by \<^verbatim>\<open>a.date.getTime() - b.date.getTime()\<close>. With an
  \<^verbatim>\<open>Invalid Date\<close> among them the comparator answers \<^verbatim>\<open>NaN\<close> and the order of the result is
  left to the host; the model has no value (\<^const>\<open>None\<close>) there. Only the date of a
  session is read afterwards.
\<close>

definition calculateRestDays :: "host \<Rightarrow> Workout list \<Rightarrow> string \<Rightarrow> RestDaysData list option" where
  "calculateRestDays h workouts exerciseId' =
     (case those (map (\<lambda>workout. safeParseDate h (wdate workout))
                      (filter (hasExercise exerciseId') workouts)) of
        None \<Rightarrow> None
      | Some timeValues \<Rightarrow>
          (let sessions = sort timeValues
           in if length sessions < 2 then Some [] else Some (restDaysLoop sessions)))"

record ConsistencyData =
  medianRestDays :: rat
  minRestDays :: int
  maxRestDays :: int
  workoutCount :: nat
  pattern :: ConsistencyPattern
  restDaysDistribution :: "(int \<times> nat) list"
  restDaysData :: "RestDaysData list"
  trend :: "Trend option"

text \<open>
  What a hook returns: \<^verbatim>\<open>null\<close>, a value, or nothing the model can tell (the sort above).
\<close>

datatype 'a hook = Unspecified | Null | Returned 'a

text \<open>
  A \<^verbatim>\<open>Map\<close> keeps its keys in insertion order: a list of pairs with distinct keys.
\<close>

fun Map_set :: "(int \<times> nat) list \<Rightarrow> int \<Rightarrow> nat \<Rightarrow> (int \<times> nat) list" where
  "Map_set [] k v = [(k, v)]"
| "Map_set ((k', v') # m) k v = (if k' = k then (k, v) # m else (k', v') # Map_set m k v)"

definition countDays :: "int \<Rightarrow> (int \<times> nat) list \<Rightarrow> (int \<times> nat) list" where
  "countDays days' distribution =
     Map_set distribution days' ((case map_of distribution days' of None \<Rightarrow> 0 | Some c \<Rightarrow> c) + 1)"

text \<open>\<^verbatim>\<open>Math.round(x * 10) / 10\<close>.\<close>

definition roundTenth :: "rat \<Rightarrow> rat" where
  "roundTenth x = of_int (round (x * 10)) / 10"

definition useExerciseConsistencyData ::
    "host \<Rightarrow> Workout list \<Rightarrow> string \<Rightarrow> PeriodType \<Rightarrow> ConsistencyData hook" where
  "useExerciseConsistencyData h workouts exerciseId' period =
     (if exerciseId' = [] then Null
      else let filteredWorkouts = filterWorkoutsByPeriod h workouts period
           in case calculateRestDays h filteredWorkouts exerciseId' of
                None \<Rightarrow> Unspecified
              | Some [] \<Rightarrow>
                  (let exerciseWorkouts = filter (hasExercise exerciseId') filteredWorkouts
                   in Returned \<lparr>medianRestDays = 0,
                                minRestDays = 0,
                                maxRestDays = 0,
                                workoutCount = length exerciseWorkouts,
                                pattern = Stable,
                                restDaysDistribution = [],
                                restDaysData = [],
                                trend = None\<rparr>)
              | Some (r # rs) \<Rightarrow>
                  (let restDaysData = r # rs;
                       restDays = map days restDaysData;
                       medianRestDays = calculateMedian restDays;
                       minRestDays = fold min (map days rs) (days r);
                       maxRestDays = fold max (map days rs) (days r);
                       distribution = fold countDays restDays [];
                       pattern = getConsistencyPattern restDays;
                       trend = calculateTrend restDaysData period;
                       exerciseWorkouts = filter (hasExercise exerciseId') filteredWorkouts
                   in Returned \<lparr>medianRestDays = roundTenth medianRestDays,
                                minRestDays = minRestDays,
                                maxRestDays = maxRestDays,
                                workoutCount = length exerciseWorkouts,
                                pattern = pattern,
                                restDaysDistribution = distribution,
                                restDaysData = restDaysData,
                                trend = trend\<rparr>))"

record YearSummary =
  year :: int
  yearWorkoutCount :: nat
  yearMedianRestDays :: rat
  yearPattern :: ConsistencyPattern

record YearComparisonData =
  currentYear :: YearSummary
  lastYear :: YearSummary
  workoutChange :: int
  restDaysChange :: rat
  isImproved :: bool


section \<open>Maximum per set position (utils/maxRepUtils)\<close>



text \<open>
  The sets of the exercise, numbered from 1 in stored order, and the first one whose number
  is \<^verbatim>\<open>setPosition\<close>.
\<close>

definition setAtPosition :: "Workout \<Rightarrow> string \<Rightarrow> nat \<Rightarrow> WorkoutSet option" where
  "setAtPosition workout exerciseId' setPosition' =
     (let matching = filter (\<lambda>set. exerciseId set = exerciseId') (sets workout);
          exerciseSets = zip matching [1 ..< Suc (length matching)]
      in map_option fst (List.find (\<lambda>(set, position). position = setPosition') exerciseSets))"



section \<open>Streaks and the weekly training percentage (App, Statistics)\<close>

text \<open>
  \<^verbatim>\<open>calculateStats\<close> first copies the log sorted by descending time. The streaks read that
  copy only through \<^verbatim>\<open>some\<close> and through the set of its date strings, which is sorted
  again; neither depends on the order, and the model reads the log itself.
\<close>

definition isToday :: "host \<Rightarrow> int option \<Rightarrow> bool" where
  "isToday h d = (toDateString d = toDateString (Some (now h)))"

definition hasWorkoutOn :: "host \<Rightarrow> Workout list \<Rightarrow> int \<Rightarrow> bool" where
  "hasWorkoutOn h workouts day =
     list_ex (\<lambda>w. toDateString (Date_new h (wdate w)) = toDateString (Some day)) workouts"

text \<open>The loop \<^verbatim>\<open>for (let i = 0; i < 365; i++)\<close>, by the number of rounds left.\<close>

fun currentStreakLoop :: "host \<Rightarrow> Workout list \<Rightarrow> nat \<Rightarrow> int \<Rightarrow> nat \<Rightarrow> nat" where
  "currentStreakLoop h workouts 0 checkDate streak = streak"
| "currentStreakLoop h workouts (Suc rounds) checkDate streak =
     (if hasWorkoutOn h workouts checkDate
      then currentStreakLoop h workouts rounds (setDate checkDate (getDate checkDate - 1)) (streak + 1)
      else streak)"

definition currentStreak :: "host \<Rightarrow> Workout list \<Rightarrow> nat" where
  "currentStreak h workouts =
     (if length workouts > 0
      then let today = now h;
               checkDate = (if \<not> list_ex (\<lambda>w. isToday h (Date_new h (wdate w))) workouts
                            then setDate today (getDate today - 1)
                            else today)
           in currentStreakLoop h workouts 365 checkDate 0
      else 0)"

text \<open>
  \<^verbatim>\<open>uniqueDates\<close> holds the distinct date strings in the order of the default \<^verbatim>\<open>sort()\<close>,
  which compares strings character by character. The loop parses each string back with
  \<^verbatim>\<open>new Date(string)\<close>: the host reads the month, the day and the year of the string and
  gives the midnight of that day, taking a year from 0 to 99 as 1900 to 1999. The model keeps
  that time value next to the string; years are those of four digits.
\<close>

definition parsedBack :: "int \<Rightarrow> int" where
  "parsedBack t = Date_local (getFullYear t) (getMonth t) (getDate t) 0 0 0"

definition uniqueDates :: "host \<Rightarrow> Workout list \<Rightarrow> (string \<times> int option) list" where
  "uniqueDates h workouts =
     sort_key fst
       (remdups (map (\<lambda>w. (toDateString (Date_new h (wdate w)),
                            map_option parsedBack (Date_new h (wdate w)))) workouts))"

definition daysDiffIsOne :: "int option \<Rightarrow> int option \<Rightarrow> bool" where
  "daysDiffIsOne prevDate currDate =
     (case (prevDate, currDate) of
        (Some p, Some c) \<Rightarrow> rat_of_int \<bar>c - p\<bar> / rat_of_int (1000 * 60 * 60 * 24) = 1
      | _ \<Rightarrow> False)"

text \<open>The loop over \<^verbatim>\<open>uniqueDates\<close> from index 1 on; it returns both counters.\<close>

fun longestStreakLoop :: "(string \<times> int option) list \<Rightarrow> nat \<Rightarrow> nat \<Rightarrow> nat \<times> nat" where
  "longestStreakLoop (prevEntry # currEntry # rest) longest tempStreak =
     (if daysDiffIsOne (snd prevEntry) (snd currEntry)
      then longestStreakLoop (currEntry # rest) longest (tempStreak + 1)
      else longestStreakLoop (currEntry # rest) (max longest tempStreak) 1)"
| "longestStreakLoop dates longest tempStreak = (longest, tempStreak)"

definition longestStreak :: "host \<Rightarrow> Workout list \<Rightarrow> nat" where
  "longestStreak h workouts =
     (case uniqueDates h workouts of
        [] \<Rightarrow> max 0 0
      | first # rest \<Rightarrow>
          (case longestStreakLoop (first # rest) 0 1 of
             (longest, tempStreak) \<Rightarrow> max longest tempStreak))"

text \<open>
  \<^verbatim>\<open>getCurrentWeekPercentage\<close>; a quotient by zero days has no finite value, here
  \<^const>\<open>None\<close>.
\<close>

definition getCurrentWeekPercentage :: "host \<Rightarrow> Workout list \<Rightarrow> int option" where
  "getCurrentWeekPercentage h workouts =
     (let currentDay = getDay (now h);
          mondayOffset = (if currentDay = 0 then - 6 else 1 - currentDay);
          monday = setHours0 (setDate (now h) (getDate (now h) + mondayOffset));
          daysInWeek = map (\<lambda>i. setDate monday (getDate monday + i)) [0 .. 6];
          workoutDays = length (filter (hasWorkoutOn h workouts) daysInWeek);
          today = now h;
          daysPassedThisWeek = length (filter (\<lambda>day. day \<le> today) daysInWeek)
      in if daysPassedThisWeek = 0 then None
         else Some (round (binary64
                 (binary64 (rat_of_nat workoutDays / rat_of_nat daysPassedThisWeek) * 100))))"

text \<open>
  \<^verbatim>\<open>getCurrentMonthPercentage\<close> and \<^verbatim>\<open>getCurrentYearPercentage\<close> collect the days from the
  first day of the month or year with \<^verbatim>\<open>while (currentDate <= today)\<close>, stepping by
  \<^verbatim>\<open>setDate(getDate() + 1)\<close>; a loop that does not end has the value \<^const>\<open>None\<close>. Both
  then count the trained days among the collected days only.
\<close>

partial_function (option) daysUpTo :: "int \<Rightarrow> int \<Rightarrow> int list option" where
  "daysUpTo currentDate today =
     (if currentDate \<le> today
      then Option.bind (daysUpTo (setDate currentDate (getDate currentDate + 1)) today)
             (\<lambda>rest. Some (currentDate # rest))
      else Some [])"

definition percentageOfDays :: "host \<Rightarrow> Workout list \<Rightarrow> int list \<Rightarrow> int option" where
  "percentageOfDays h workouts daysInPeriod =
     (let workoutDays = length (filter (hasWorkoutOn h workouts) daysInPeriod)
      in if length daysInPeriod = 0 then None
         else Some (round (binary64
                 (binary64 (rat_of_nat workoutDays / rat_of_nat (length daysInPeriod)) * 100))))"

definition getCurrentMonthPercentage :: "host \<Rightarrow> Workout list \<Rightarrow> int option" where
  "getCurrentMonthPercentage h workouts =
     (let firstDayOfMonth = Date_local (getFullYear (now h)) (getMonth (now h)) 1 0 0 0;
          today = now h
      in Option.bind (daysUpTo firstDayOfMonth today) (percentageOfDays h workouts))"

definition getCurrentYearPercentage :: "host \<Rightarrow> Workout list \<Rightarrow> int option" where
  "getCurrentYearPercentage h workouts =
     (let firstDayOfYear = Date_local (getFullYear (now h)) 0 1 0 0 0;
          today = now h
      in Option.bind (daysUpTo firstDayOfYear today) (percentageOfDays h workouts))"

section \<open>Notions used in the statements\<close>

definition sameCalendarDay :: "int \<Rightarrow> int \<Rightarrow> bool" where
  "sameCalendarDay a b =
     (getFullYear a = getFullYear b \<and> getMonth a = getMonth b \<and> getDate a = getDate b)"







section \<open>Sample logs\<close>

text \<open>
  A host at noon of Thursday 4 January 2024 whose \<^verbatim>\<open>Date\<close> parses one ISO string and
  answers every other string with an \<^verbatim>\<open>Invalid Date\<close>; the same host at noon of Monday
  1 January 2024.
\<close>

definition utc :: host where
  "utc = \<lparr>Date_parse = (\<lambda>s. if s = ''2024-01-02T09:00:00.000Z'' then Some 1704186000000 else None),
          now = 1704369600000\<rparr>"

definition monday_noon :: host where
  "monday_noon = utc\<lparr>now := 1704110400000\<rparr>"

text \<open>A workout with one set of \<^verbatim>\<open>plank\<close>: year, month (from 0), day, hour, repetitions.\<close>

definition workoutOn :: "int \<Rightarrow> int \<Rightarrow> int \<Rightarrow> int \<Rightarrow> int \<Rightarrow> Workout" where
  "workoutOn y m d hours n =
     \<lparr>wdate = DateObject (Some (Date_local y m d hours 0 0)),
      sets = [\<lparr>exerciseId = ''plank'', reps = n, duration = None\<rparr>]\<rparr>"



definition workout_bad_date :: Workout where
  "workout_bad_date = \<lparr>wdate = DateString ''not-a-date'', sets = [\<lparr>exerciseId = ''plank'', reps = 10, duration = None\<rparr>]\<rparr>"


definition log_same_day :: "Workout list" where
  "log_same_day = [workoutOn 2024 0 2 9 10, workoutOn 2024 0 2 19 10, workoutOn 2024 0 4 9 10]"




definition log_three_days :: "Workout list" where
  "log_three_days = [workoutOn 2024 0 2 9 10, workoutOn 2024 0 3 9 10, workoutOn 2024 0 4 9 10]"

definition log_this_week :: "Workout list" where
  "log_this_week = [workoutOn 2024 0 1 9 10, workoutOn 2024 0 2 9 10]"

text \<open>The gaps between workouts on day 1, 4, 10 and 11.\<close>

definition gaps_example :: "int list" where
  "gaps_example = [3, 6, 1]"

text \<open>
  Four gaps whose earlier half is two gaps of zero days (sessions on one calendar day).
\<close>

definition gaps_0033 :: "RestDaysData list" where
  "gaps_0033 = [\<lparr>date = 1704186000000, days = 0\<rparr>, \<lparr>date = 1704189600000, days = 0\<rparr>,
                \<lparr>date = 1704445200000, days = 3\<rparr>, \<lparr>date = 1704704400000, days = 3\<rparr>]"

text \<open>
  The gaps of 20, 20, 8 and 9 days between sessions from 1 January 2024 on.
\<close>

definition gaps_20_20_8_9 :: "RestDaysData list" where
  "gaps_20_20_8_9 = [\<lparr>date = 1705827600000, days = 20\<rparr>, \<lparr>date = 1707555600000, days = 20\<rparr>,
                     \<lparr>date = 1708246800000, days = 8\<rparr>, \<lparr>date = 1709024400000, days = 9\<rparr>]"

section \<open>The percentage formula as specified\<close>

text \<open>
  The specified percentage is \<^verbatim>\<open>round(100 * (pastMedian - recentMedian) / pastMedian)\<close>; a
  quotient by a zero median has no value.
\<close>

definition spec_percentageChange :: "rat \<Rightarrow> rat \<Rightarrow> int option" where
  "spec_percentageChange pastMedian' recentMedian' =
     (if pastMedian' = 0 then None
      else Some (round (100 * (pastMedian' - recentMedian') / pastMedian')))"

section \<open>Properties of the rounding to a double\<close>

lemma bitLength_nonneg: "0 \<le> bitLength m"
  by (induction m rule: bitLength.induct) (subst bitLength.simps, simp)

lemma bitLength_pos: "1 \<le> n \<Longrightarrow> 1 \<le> bitLength n"
  using bitLength_nonneg [of "n div 2"] by (subst bitLength.simps) simp

lemma bitLength_bounds:
  "1 \<le> n \<Longrightarrow> 2 ^ nat (bitLength n - 1) \<le> n \<and> n < 2 ^ nat (bitLength n)"
proof (induction n rule: bitLength.induct)
  case (1 n)
  show ?case
  proof (cases "n = 1")
    case True
    have "bitLength 1 = 1" by (simp add: bitLength.simps [of 1] bitLength.simps [of 0])
    then show ?thesis using True by simp
  next
    case False
    with "1.prems" have m: "1 \<le> n div 2" by simp
    define b where "b = bitLength (n div 2)"
    have b1: "1 \<le> b" unfolding b_def by (rule bitLength_pos [OF m])
    have ih: "2 ^ nat (b - 1) \<le> n div 2" "n div 2 < 2 ^ nat b"
      using "1.IH" m "1.prems" unfolding b_def by simp_all
    have bl: "bitLength n = 1 + b"
      using "1.prems" unfolding b_def by (subst bitLength.simps) simp
    have "nat b = Suc (nat (b - 1))" using b1 by simp
    then have p: "(2::int) ^ nat b = 2 * 2 ^ nat (b - 1)" by simp
    have "nat (1 + b) = Suc (nat b)" using b1 by simp
    then have q: "(2::int) ^ nat (1 + b) = 2 * 2 ^ nat b" by simp
    have lower: "2 ^ nat b \<le> n" using ih(1) p by linarith
    have upper: "n < 2 * 2 ^ nat b" using ih(2) by linarith
    show ?thesis unfolding bl using lower upper q by simp
  qed
qed


lemma pow2_pos: "0 < pow2 e"
  by (simp add: pow2_def)

lemma pow2_nonpos: "e \<le> 0 \<Longrightarrow> pow2 e = 1 / 2 ^ nat (- e)"
  by (cases "e = 0") (simp_all add: pow2_def)

lemma pow2_nonneg: "0 \<le> e \<Longrightarrow> pow2 e = 2 ^ nat e"
  by (simp add: pow2_def)

text \<open>\<open>ilog2\<close> is the binary exponent of a positive number.\<close>

lemma ilog2_bounds:
  assumes "0 < a"
  shows "pow2 (ilog2 a) \<le> a \<and> a < pow2 (ilog2 a + 1)"
proof (cases "1 \<le> a")
  case True
  define n where "n = \<lfloor>a\<rfloor>"
  have n1: "1 \<le> n" using True unfolding n_def by simp
  define k where "k = bitLength n - 1"
  have k0: "0 \<le> k" using bitLength_pos [OF n1] unfolding k_def by simp
  have b: "2 ^ nat k \<le> n" "n < 2 ^ nat (k + 1)"
    using bitLength_bounds [OF n1] unfolding k_def by simp_all
  have il: "ilog2 a = k" using True unfolding ilog2_def n_def k_def by simp
  have "rat_of_int (2 ^ nat k) \<le> of_int n" using b(1) by (simp only: of_int_le_iff)
  then have "(2::rat) ^ nat k \<le> of_int n" by simp
  moreover have "of_int n \<le> a" unfolding n_def by simp
  ultimately have "(2::rat) ^ nat k \<le> a" by (rule order_trans)
  then have lower: "pow2 k \<le> a" using k0 by (simp add: pow2_nonneg)
  have "n + 1 \<le> 2 ^ nat (k + 1)" using b(2) by simp
  then have "rat_of_int (n + 1) \<le> of_int (2 ^ nat (k + 1))" by (simp only: of_int_le_iff)
  then have "rat_of_int (n + 1) \<le> 2 ^ nat (k + 1)" by simp
  moreover have "a < of_int (n + 1)" unfolding n_def by linarith
  ultimately have "a < 2 ^ nat (k + 1)" by (rule less_le_trans [rotated])
  then have upper: "a < pow2 (k + 1)" using k0 by (simp add: pow2_nonneg)
  show ?thesis unfolding il using lower upper by simp
next
  case False
  define y where "y = 1 / a"
  have y1: "1 < y" using False assms unfolding y_def by simp
  define m where "m = \<lceil>y\<rceil> - 1"
  have m1: "1 \<le> m" using y1 unfolding m_def by linarith
  define b where "b = bitLength m"
  have b1: "1 \<le> b" unfolding b_def by (rule bitLength_pos [OF m1])
  have bb: "2 ^ nat (b - 1) \<le> m" "m < 2 ^ nat b"
    using bitLength_bounds [OF m1] unfolding b_def by simp_all
  have il: "ilog2 a = - b" using False unfolding ilog2_def y_def m_def b_def by simp
  have "\<lceil>y\<rceil> \<le> 2 ^ nat b" using bb(2) unfolding m_def by simp
  then have "rat_of_int \<lceil>y\<rceil> \<le> of_int (2 ^ nat b)" by (simp only: of_int_le_iff)
  then have "rat_of_int \<lceil>y\<rceil> \<le> 2 ^ nat b" by simp
  moreover have "y \<le> of_int \<lceil>y\<rceil>" by (rule le_of_int_ceiling)
  ultimately have "y \<le> 2 ^ nat b" by (rule order_trans [rotated])
  then have "1 / a \<le> 2 ^ nat b" unfolding y_def .
  then have "1 \<le> 2 ^ nat b * a" using assms by (simp add: divide_le_eq)
  then have lower: "pow2 (- b) \<le> a"
    using b1 by (simp add: pow2_nonpos divide_le_eq mult.commute)
  have "rat_of_int (2 ^ nat (b - 1)) \<le> of_int m" using bb(1) by (simp only: of_int_le_iff)
  then have "(2::rat) ^ nat (b - 1) \<le> of_int m" by simp
  moreover have "of_int m < y" unfolding m_def by linarith
  ultimately have "2 ^ nat (b - 1) < y" by (rule le_less_trans)
  then have "2 ^ nat (b - 1) < 1 / a" unfolding y_def .
  then have "2 ^ nat (b - 1) * a < 1" using assms by (simp add: less_divide_eq)
  moreover have "pow2 (- b + 1) = 1 / 2 ^ nat (b - 1)"
    using b1 pow2_nonpos [of "- b + 1"] by simp
  ultimately have upper: "a < pow2 (- b + 1)"
    by (simp add: less_divide_eq mult.commute)
  show ?thesis unfolding il using lower upper by simp
qed

lemma roundHalfEven_nonneg: "0 \<le> y \<Longrightarrow> 0 \<le> roundHalfEven y"
  by (auto simp add: roundHalfEven_def Let_def)

lemma roundHalfEven_le:
  assumes "y \<le> of_int M"
  shows "roundHalfEven y \<le> M"
proof (cases "y = of_int M")
  case True
  then show ?thesis by (simp add: roundHalfEven_def Let_def)
next
  case False
  then have "y < of_int M" using assms by simp
  then have "\<lfloor>y\<rfloor> < M" by (simp add: floor_less_iff)
  then show ?thesis by (auto simp add: roundHalfEven_def Let_def)
qed

lemma binary64_nonneg: "0 \<le> x \<Longrightarrow> 0 \<le> binary64 x"
proof (cases "x = 0")
  case True
  then show ?thesis by (simp add: binary64_def)
next
  case False
  assume "0 \<le> x"
  with False have x: "0 < x" by simp
  have "0 \<le> \<bar>x\<bar> / pow2 (ilog2 \<bar>x\<bar> - 52)" using pow2_pos by (simp add: less_imp_le)
  then have "0 \<le> roundHalfEven (\<bar>x\<bar> / pow2 (ilog2 \<bar>x\<bar> - 52))" by (rule roundHalfEven_nonneg)
  then show ?thesis
    using x pow2_pos [of "ilog2 \<bar>x\<bar> - 52"] by (simp add: binary64_def Let_def less_imp_le)
qed

text \<open>
  Rounding to a double does not pass an integer below \<open>2 ^ 53\<close> that bounds the number.
\<close>

lemma binary64_le_int:
  assumes "0 \<le> x" and "x \<le> of_int c" and "c < 2 ^ 53"
  shows "binary64 x \<le> of_int c"
proof (cases "x = 0")
  case True
  then show ?thesis using assms by (simp add: binary64_def)
next
  case False
  with assms(1) have x: "0 < x" by simp
  define k where "k = ilog2 x"
  have kb: "pow2 k \<le> x" using ilog2_bounds [OF x] unfolding k_def by simp
  have k52: "k \<le> 52"
  proof (rule ccontr)
    assume "\<not> k \<le> 52"
    then have k53: "53 \<le> k" by simp
    then have "nat 53 \<le> nat k" by simp
    then have "(2::rat) ^ 53 \<le> 2 ^ nat k" by (intro power_increasing) simp_all
    then have "(2::rat) ^ 53 \<le> pow2 k" using k53 by (simp add: pow2_nonneg)
    then have "(2::rat) ^ 53 \<le> of_int c" using kb assms(2) by linarith
    moreover have "rat_of_int c < of_int (2 ^ 53)" using assms(3) by (simp only: of_int_less_iff)
    ultimately show False by simp
  qed
  define n where "n = nat (- (k - 52))"
  have pe: "pow2 (k - 52) = 1 / 2 ^ n" unfolding n_def using k52 by (simp add: pow2_nonpos)
  have "x * 2 ^ n \<le> of_int c * 2 ^ n" using assms(2) by simp
  then have "x / pow2 (k - 52) \<le> of_int (c * 2 ^ n)" by (simp add: pe)
  then have "roundHalfEven (x / pow2 (k - 52)) \<le> c * 2 ^ n" by (rule roundHalfEven_le)
  then have "rat_of_int (roundHalfEven (x / pow2 (k - 52))) \<le> of_int (c * 2 ^ n)"
    by (simp only: of_int_le_iff)
  then have "of_int (roundHalfEven (x / pow2 (k - 52))) * pow2 (k - 52) \<le> of_int c"
    by (simp add: pe divide_le_eq)
  then show ?thesis using x by (simp add: binary64_def Let_def k_def)
qed

section \<open>Properties of the pattern and the trend\<close>

lemma floor_quarter: "nat \<lfloor>rat_of_nat n * (1 / 4)\<rfloor> = n div 4"
  by linarith

lemma floor_three_quarters: "nat \<lfloor>rat_of_nat n * (3 / 4)\<rfloor> = (3 * n) div 4"
  by linarith

text \<open>
  C1. With fewer than two gaps the pattern is Stable. With \<open>n \<ge> 2\<close> gaps the quartiles are
  the entries of the ascending gap list at the indices \<open>floor (n * 0.25)\<close> and
  \<open>floor (n * 0.75)\<close>, both inside the list, and the pattern is Stable for an interquartile
  range of at most 2, Variable for a range above 2 and at most 7, Irregular above 7.
\<close>

theorem getConsistencyPattern_iqr:
  "(length gaps < 2 \<longrightarrow> getConsistencyPattern gaps = Stable)
   \<and> (2 \<le> length gaps \<longrightarrow>
        (let n = length gaps;
             q1Index = nat \<lfloor>rat_of_nat n * (1 / 4)\<rfloor>;
             q3Index = nat \<lfloor>rat_of_nat n * (3 / 4)\<rfloor>;
             iqr = sort gaps ! q3Index - sort gaps ! q1Index
         in q1Index = n div 4 \<and> q3Index = 3 * n div 4 \<and> q1Index \<le> q3Index \<and> q3Index < n
            \<and> 0 \<le> iqr
            \<and> (iqr \<le> 2 \<longrightarrow> getConsistencyPattern gaps = Stable)
            \<and> (2 < iqr \<and> iqr \<le> 7 \<longrightarrow> getConsistencyPattern gaps = Variable)
            \<and> (7 < iqr \<longrightarrow> getConsistencyPattern gaps = Irregular)))"
proof (intro conjI impI)
  assume "length gaps < 2"
  then show "getConsistencyPattern gaps = Stable"
    by (simp add: getConsistencyPattern_def)
next
  assume n2: "2 \<le> length gaps"
  define n where "n = length gaps"
  define iqr where "iqr = sort gaps ! (3 * n div 4) - sort gaps ! (n div 4)"
  have a: "n div 4 \<le> 3 * n div 4" by linarith
  have b: "3 * n div 4 < n" using n2 unfolding n_def by linarith
  have "sort gaps ! (n div 4) \<le> sort gaps ! (3 * n div 4)"
    using a b by (intro sorted_nth_mono) (simp_all add: n_def)
  then have nonneg: "0 \<le> iqr" by (simp add: iqr_def)
  have unfold: "getConsistencyPattern gaps =
      (if iqr \<le> 2 then Stable else if iqr \<le> 7 then Variable else Irregular)"
    unfolding getConsistencyPattern_def floor_quarter floor_three_quarters iqr_def n_def
    using n2 by (simp add: Let_def)
  have cases: "(iqr \<le> 2 \<longrightarrow> getConsistencyPattern gaps = Stable)
      \<and> (2 < iqr \<and> iqr \<le> 7 \<longrightarrow> getConsistencyPattern gaps = Variable)
      \<and> (7 < iqr \<longrightarrow> getConsistencyPattern gaps = Irregular)"
    by (simp add: unfold)
  show "let n = length gaps;
             q1Index = nat \<lfloor>rat_of_nat n * (1 / 4)\<rfloor>;
             q3Index = nat \<lfloor>rat_of_nat n * (3 / 4)\<rfloor>;
             iqr = sort gaps ! q3Index - sort gaps ! q1Index
         in q1Index = n div 4 \<and> q3Index = 3 * n div 4 \<and> q1Index \<le> q3Index \<and> q3Index < n
            \<and> 0 \<le> iqr
            \<and> (iqr \<le> 2 \<longrightarrow> getConsistencyPattern gaps = Stable)
            \<and> (2 < iqr \<and> iqr \<le> 7 \<longrightarrow> getConsistencyPattern gaps = Variable)
            \<and> (7 < iqr \<longrightarrow> getConsistencyPattern gaps = Irregular)"
    unfolding Let_def floor_quarter floor_three_quarters
    using a b nonneg cases unfolding iqr_def n_def by blast
qed

text \<open>
  The gaps 3, 6, 1 sort to 1, 3, 6, with first quartile 1, third quartile 6 and range 5: the
  pattern is Variable, and the median gap is 3.
\<close>

theorem getConsistencyPattern_iqr_witness:
  "2 \<le> length gaps_example
   \<and> sort gaps_example = [1, 3, 6]
   \<and> sort gaps_example ! nat \<lfloor>rat_of_nat (length gaps_example) * (1 / 4)\<rfloor> = 1
   \<and> sort gaps_example ! nat \<lfloor>rat_of_nat (length gaps_example) * (3 / 4)\<rfloor> = 6
   \<and> getConsistencyPattern gaps_example = Variable
   \<and> calculateMedian gaps_example = 3"
proof -
  have len: "2 \<le> length gaps_example" by (simp add: gaps_example_def)
  have srt: "sort gaps_example = [1, 3, 6]" by (simp add: gaps_example_def)
  have i1: "nat \<lfloor>rat_of_nat (length gaps_example) * (1 / 4)\<rfloor> = 0"
    and i3: "nat \<lfloor>rat_of_nat (length gaps_example) * (3 / 4)\<rfloor> = 2"
    unfolding floor_quarter floor_three_quarters by (simp_all add: gaps_example_def)
  have q1: "sort gaps_example ! 0 = 1" and q3: "sort gaps_example ! 2 = 6"
    by (simp_all add: srt)
  have "getConsistencyPattern gaps_example = Variable"
    using getConsistencyPattern_iqr [of gaps_example] len
    unfolding Let_def i1 i3 q1 q3 by simp
  moreover have "calculateMedian gaps_example = 3"
    by (simp add: calculateMedian_def srt) (simp add: gaps_example_def)
  ultimately show ?thesis
    using len srt q1 q3 unfolding i1 i3 by simp
qed

lemma halves_length:
  assumes "4 \<le> length (gaps :: RestDaysData list)"
  shows "2 \<le> length (take (length gaps div 2) (sort_key date gaps))"
    and "2 \<le> length (drop (length gaps div 2) (sort_key date gaps))"
  using assms by simp_all

text \<open>
  C3. A gap list with at least four entries, sorted by date and split at index
  \<open>floor (n / 2)\<close>, has at least two entries in its past half and in its recent half, so the
  trend of the four-month window is a result whose direction is not Insufficient; exactly
  four gaps split into two and two.
\<close>

theorem calculateTrend_halves_sufficient:
  assumes "4 \<le> length gaps"
  shows "2 \<le> length (take (length gaps div 2) (sort_key date gaps))
       \<and> 2 \<le> length (drop (length gaps div 2) (sort_key date gaps))
       \<and> (\<exists>t. calculateTrend gaps FourMonths = Some t \<and> direction t \<noteq> Insufficient)
       \<and> (length gaps = 4 \<longrightarrow>
            length (take (length gaps div 2) (sort_key date gaps)) = 2
          \<and> length (drop (length gaps div 2) (sort_key date gaps)) = 2)"
proof -
  have p: "\<not> length (take (length gaps div 2) (sort_key date gaps)) < 2"
    and r: "\<not> length (drop (length gaps div 2) (sort_key date gaps)) < 2"
    using halves_length [OF assms] by simp_all
  have n: "\<not> length gaps < 4" using assms by simp
  have "\<exists>t. calculateTrend gaps FourMonths = Some t \<and> direction t \<noteq> Insufficient"
    unfolding calculateTrend_def Let_def using p r n by (simp del: length_take length_drop)
  then show ?thesis using assms halves_length [OF assms] by auto
qed

theorem calculateTrend_halves_sufficient_witness:
  "length gaps_0033 = 4
   \<and> length (take (length gaps_0033 div 2) (sort_key date gaps_0033)) = 2
   \<and> length (drop (length gaps_0033 div 2) (sort_key date gaps_0033)) = 2
   \<and> (\<exists>t. calculateTrend gaps_0033 FourMonths = Some t \<and> direction t \<noteq> Insufficient)"
proof -
  have len: "length gaps_0033 = 4" by (simp add: gaps_0033_def)
  then have "4 \<le> length gaps_0033" by simp
  from calculateTrend_halves_sufficient [OF this] len show ?thesis by blast
qed

text \<open>
  C2, as the code has it. In the four-month window a gap list with fewer than four entries
  has no trend at all (the result is \<^verbatim>\<open>null\<close>, not a trend of direction Insufficient). With
  at least four entries the medians of the date-sorted halves are returned. When the past
  median is positive the percentage is \<^verbatim>\<open>Math.round\<close> of the double
  \<^verbatim>\<open>((pastMedian - recentMedian) / pastMedian) * 100\<close>, whose quotient and product are each
  rounded to the nearest double; when it is not positive the percentage is 0. The direction
  is Improving exactly above 10, Declining exactly below -10 and Stable otherwise.
\<close>

theorem calculateTrend_four_months:
  "(length gaps < 4 \<longrightarrow> calculateTrend gaps FourMonths = None)
   \<and> (4 \<le> length gaps \<longrightarrow>
        (let byDate = sort_key date gaps;
             pm = calculateMedian (map days (take (length gaps div 2) byDate));
             rm = calculateMedian (map days (drop (length gaps div 2) byDate))
         in \<exists>t. calculateTrend gaps FourMonths = Some t
               \<and> pastMedian t = pm \<and> recentMedian t = rm
               \<and> (0 < pm \<longrightarrow>
                    percentageChange t = round (binary64 (binary64 ((pm - rm) / pm) * 100)))
               \<and> (\<not> 0 < pm \<longrightarrow> percentageChange t = 0)
               \<and> (direction t = Improving \<longleftrightarrow> percentageChange t > 10)
               \<and> (direction t = Declining \<longleftrightarrow> percentageChange t < - 10)
               \<and> (direction t = StableTrend \<longleftrightarrow>
                    - 10 \<le> percentageChange t \<and> percentageChange t \<le> 10)))"
proof (intro conjI impI)
  assume "length gaps < 4"
  then show "calculateTrend gaps FourMonths = None"
    by (simp add: calculateTrend_def)
next
  assume len: "4 \<le> length gaps"
  define pm where "pm = calculateMedian (map days (take (length gaps div 2) (sort_key date gaps)))"
  define rm where "rm = calculateMedian (map days (drop (length gaps div 2) (sort_key date gaps)))"
  have p: "\<not> length (take (length gaps div 2) (sort_key date gaps)) < 2"
    and r: "\<not> length (drop (length gaps div 2) (sort_key date gaps)) < 2"
    using halves_length [OF len] by simp_all
  have n: "\<not> length gaps < 4" using len by simp
  define pc where
    "pc = (if pm > 0 then round (binary64 (binary64 ((pm - rm) / pm) * 100)) else 0)"
  define t where
    "t = \<lparr>direction = (if pc > 10 then Improving else if pc < - 10 then Declining else StableTrend),
          percentageChange = pc, recentMedian = rm, pastMedian = pm\<rparr>"
  have eq: "calculateTrend gaps FourMonths = Some t"
    unfolding calculateTrend_def Let_def t_def pc_def pm_def rm_def
    using p r n by (simp del: length_take length_drop)
  have "calculateTrend gaps FourMonths = Some t
               \<and> pastMedian t = pm \<and> recentMedian t = rm
               \<and> (0 < pm \<longrightarrow>
                    percentageChange t = round (binary64 (binary64 ((pm - rm) / pm) * 100)))
               \<and> (\<not> 0 < pm \<longrightarrow> percentageChange t = 0)
               \<and> (direction t = Improving \<longleftrightarrow> percentageChange t > 10)
               \<and> (direction t = Declining \<longleftrightarrow> percentageChange t < - 10)
               \<and> (direction t = StableTrend \<longleftrightarrow>
                    - 10 \<le> percentageChange t \<and> percentageChange t \<le> 10)"
    unfolding eq t_def pc_def by simp
  then show "let byDate = sort_key date gaps;
             pm = calculateMedian (map days (take (length gaps div 2) byDate));
             rm = calculateMedian (map days (drop (length gaps div 2) byDate))
         in \<exists>t. calculateTrend gaps FourMonths = Some t
               \<and> pastMedian t = pm \<and> recentMedian t = rm
               \<and> (0 < pm \<longrightarrow>
                    percentageChange t = round (binary64 (binary64 ((pm - rm) / pm) * 100)))
               \<and> (\<not> 0 < pm \<longrightarrow> percentageChange t = 0)
               \<and> (direction t = Improving \<longleftrightarrow> percentageChange t > 10)
               \<and> (direction t = Declining \<longleftrightarrow> percentageChange t < - 10)
               \<and> (direction t = StableTrend \<longleftrightarrow>
                    - 10 \<le> percentageChange t \<and> percentageChange t \<le> 10)"
    unfolding Let_def pm_def rm_def by blast
qed

text \<open>
  Three gaps give no trend; the gaps 0, 0, 3, 3 have a past median of 0 and give 0 percent,
  Stable; the gaps 20, 20, 8, 9 have the medians 20 and 8.5 and give 57 percent, Improving.
\<close>

theorem calculateTrend_four_months_witness:
  "length (take 3 gaps_0033) < 4 \<and> 4 \<le> length gaps_0033 \<and> 4 \<le> length gaps_20_20_8_9
   \<and> calculateTrend (take 3 gaps_0033) FourMonths = None
   \<and> (\<exists>t. calculateTrend gaps_0033 FourMonths = Some t
          \<and> percentageChange t = 0 \<and> direction t = StableTrend)
   \<and> (\<exists>t. calculateTrend gaps_20_20_8_9 FourMonths = Some t
          \<and> pastMedian t = 20 \<and> recentMedian t = 17 / 2
          \<and> percentageChange t = 57 \<and> direction t = Improving)"
proof -
  have a: "length (take 3 gaps_0033) < 4" and b: "4 \<le> length gaps_0033"
    and c: "4 \<le> length gaps_20_20_8_9"
    by (simp_all add: gaps_0033_def gaps_20_20_8_9_def)
  have pm0: "calculateMedian (map days (take (length gaps_0033 div 2) (sort_key date gaps_0033)))
             = 0"
    unfolding gaps_0033_def by code_simp
  have pm: "calculateMedian
              (map days (take (length gaps_20_20_8_9 div 2) (sort_key date gaps_20_20_8_9))) = 20"
    and rm: "calculateMedian
              (map days (drop (length gaps_20_20_8_9 div 2) (sort_key date gaps_20_20_8_9)))
             = 17 / 2"
    unfolding gaps_20_20_8_9_def by code_simp+
  have pc: "round (binary64 (binary64 ((20 - 17 / 2) / 20) * 100)) = 57"
    by code_simp
  from calculateTrend_four_months [of "take 3 gaps_0033"] a
  have "calculateTrend (take 3 gaps_0033) FourMonths = None" by blast
  moreover from calculateTrend_four_months [of gaps_0033] b pm0
  have "\<exists>t. calculateTrend gaps_0033 FourMonths = Some t
          \<and> percentageChange t = 0 \<and> direction t = StableTrend"
    unfolding Let_def by auto
  moreover from calculateTrend_four_months [of gaps_20_20_8_9] c
  have "\<exists>t. calculateTrend gaps_20_20_8_9 FourMonths = Some t
          \<and> pastMedian t = 20 \<and> recentMedian t = 17 / 2
          \<and> percentageChange t = 57 \<and> direction t = Improving"
    unfolding Let_def pm rm using pc by auto
  ultimately show ?thesis using a b c by blast
qed

text \<open>
  C2 as stated fails three times. For the gaps 0, 0, 3, 3 the past median is 0, where the
  specified quotient has no value, and the code answers 0 percent and Stable. For three gaps
  the code returns no trend, not a trend of direction Insufficient. For the gaps 20, 20, 8, 9
  the specified percentage is the rounding of 57.5, which is 58, and the code answers 57: the
  double nearest to 0.575 times 100 gives a double just below 57.5.
\<close>

theorem calculateTrend_counterexample:
  "calculateTrend gaps_0033 FourMonths =
     Some \<lparr>direction = StableTrend, percentageChange = 0, recentMedian = 3, pastMedian = 0\<rparr>
   \<and> spec_percentageChange 0 3 = None
   \<and> calculateTrend (take 3 gaps_0033) FourMonths = None
   \<and> calculateTrend gaps_20_20_8_9 FourMonths =
       Some \<lparr>direction = Improving, percentageChange = 57, recentMedian = 17 / 2,
             pastMedian = 20\<rparr>
   \<and> spec_percentageChange 20 (17 / 2) = Some 58"
  unfolding gaps_0033_def gaps_20_20_8_9_def spec_percentageChange_def by code_simp

section \<open>Properties of the rest intervals and the hooks\<close>

lemma those_map_Some: "those (map Some xs) = Some xs"
  by (induction xs) simp_all

lemma all_valid_map_Some:
  "\<forall>x \<in> set xs. f x \<noteq> None \<Longrightarrow> \<exists>ts. map f xs = map Some ts"
proof (induction xs)
  case Nil
  then show ?case by simp
next
  case (Cons x xs)
  then obtain ts where "map f xs = map Some ts" by auto
  moreover obtain t where "f x = Some t" using Cons.prems by auto
  ultimately have "map f (x # xs) = map Some (t # ts)" by simp
  then show ?case by blast
qed

text \<open>Every workout that passes the period filter has a valid date.\<close>

lemma filterWorkoutsByPeriod_valid:
  "w \<in> set (filterWorkoutsByPeriod h workouts period) \<Longrightarrow> safeParseDate h (wdate w) \<noteq> None"
  by (cases period)
     (auto simp add: filterWorkoutsByPeriod_def Let_def date_ge_def split: option.splits)

lemma length_restDaysLoop: "length (restDaysLoop xs) = length xs - 1"
  by (induction xs rule: restDaysLoop.induct) simp_all

lemma nth_restDaysLoop:
  "i + 1 < length xs \<Longrightarrow>
     restDaysLoop xs ! i = \<lparr>date = xs ! (i + 1), days = diffDays (xs ! (i + 1)) (xs ! i)\<rparr>"
proof (induction xs arbitrary: i rule: restDaysLoop.induct)
  case (1 previous current rest)
  then show ?case by (cases i) simp_all
qed simp_all

lemma diffDays_same_day: "sameCalendarDay a b \<Longrightarrow> diffDays a b = 0"
  by (simp add: diffDays_def sameCalendarDay_def)

lemma calculateRestDays_Some:
  assumes "map (\<lambda>w. safeParseDate h (wdate w)) (filter (hasExercise e) workouts) = map Some ts"
  shows "calculateRestDays h workouts e = Some (restDaysLoop (sort ts))"
proof -
  have "length (sort ts) < 2 \<Longrightarrow> restDaysLoop (sort ts) = []"
    using length_restDaysLoop [of "sort ts"] by simp
  then show ?thesis
    unfolding calculateRestDays_def assms those_map_Some by (simp add: Let_def)
qed

text \<open>Inside a period window the rest days are always defined.\<close>

lemma restDays_in_window:
  "\<exists>ts. map (\<lambda>w. safeParseDate h (wdate w))
            (filter (hasExercise e) (filterWorkoutsByPeriod h workouts period)) = map Some ts
     \<and> calculateRestDays h (filterWorkoutsByPeriod h workouts period) e
          = Some (restDaysLoop (sort ts))"
proof -
  have "\<forall>w \<in> set (filter (hasExercise e) (filterWorkoutsByPeriod h workouts period)).
          safeParseDate h (wdate w) \<noteq> None"
    using filterWorkoutsByPeriod_valid by auto
  from all_valid_map_Some [OF this] obtain ts where
    ts: "map (\<lambda>w. safeParseDate h (wdate w))
           (filter (hasExercise e) (filterWorkoutsByPeriod h workouts period)) = map Some ts"
    by blast
  then show ?thesis using calculateRestDays_Some [OF ts] by blast
qed


text \<open>
  C5, as the code has it. Inside a period window the qualifying workouts all have valid
  dates; their time values, sorted ascending and not deduplicated, give one rest interval
  per consecutive pair of sessions: it carries the later session's date and the day
  difference of the two sessions' calendar days, which is 0 when both sessions fall on the
  same calendar day.
\<close>

theorem calculateRestDays_sessions:
  "\<exists>ts rd. map (\<lambda>w. safeParseDate h (wdate w))
               (filter (hasExercise e) (filterWorkoutsByPeriod h workouts period)) = map Some ts
     \<and> calculateRestDays h (filterWorkoutsByPeriod h workouts period) e = Some rd
     \<and> length rd = length ts - 1
     \<and> (\<forall>i. i + 1 < length ts \<longrightarrow>
           date (rd ! i) = sort ts ! (i + 1)
         \<and> days (rd ! i) = diffDays (sort ts ! (i + 1)) (sort ts ! i)
         \<and> (sameCalendarDay (sort ts ! (i + 1)) (sort ts ! i) \<longrightarrow> days (rd ! i) = 0))"
proof -
  from restDays_in_window [of h e workouts period] obtain ts where
    ts: "map (\<lambda>w. safeParseDate h (wdate w))
           (filter (hasExercise e) (filterWorkoutsByPeriod h workouts period)) = map Some ts"
    and rd: "calculateRestDays h (filterWorkoutsByPeriod h workouts period) e
              = Some (restDaysLoop (sort ts))"
    by blast
  have len: "length (restDaysLoop (sort ts)) = length ts - 1"
    by (simp add: length_restDaysLoop)
  have nth: "\<forall>i. i + 1 < length ts \<longrightarrow>
           date (restDaysLoop (sort ts) ! i) = sort ts ! (i + 1)
         \<and> days (restDaysLoop (sort ts) ! i) = diffDays (sort ts ! (i + 1)) (sort ts ! i)
         \<and> (sameCalendarDay (sort ts ! (i + 1)) (sort ts ! i) \<longrightarrow>
              days (restDaysLoop (sort ts) ! i) = 0)"
    by (simp add: nth_restDaysLoop diffDays_same_day)
  show ?thesis using ts rd len nth by blast
qed

theorem calculateRestDays_sessions_witness:
  "\<exists>rd. calculateRestDays utc (filterWorkoutsByPeriod utc log_same_day CurrentYear) ''plank''
           = Some rd
      \<and> length rd = 2 \<and> days (rd ! 0) = 0"
proof -
  from calculateRestDays_sessions [of utc "''plank''" log_same_day CurrentYear]
  obtain ts rd where
    ts: "map (\<lambda>w. safeParseDate utc (wdate w))
           (filter (hasExercise ''plank'') (filterWorkoutsByPeriod utc log_same_day CurrentYear))
         = map Some ts"
    and rd: "calculateRestDays utc (filterWorkoutsByPeriod utc log_same_day CurrentYear) ''plank''
             = Some rd"
    and len: "length rd = length ts - 1"
    and nth: "\<forall>i. i + 1 < length ts \<longrightarrow>
           date (rd ! i) = sort ts ! (i + 1)
         \<and> days (rd ! i) = diffDays (sort ts ! (i + 1)) (sort ts ! i)
         \<and> (sameCalendarDay (sort ts ! (i + 1)) (sort ts ! i) \<longrightarrow> days (rd ! i) = 0)"
    by blast
  have "map (\<lambda>w. safeParseDate utc (wdate w))
           (filter (hasExercise ''plank'') (filterWorkoutsByPeriod utc log_same_day CurrentYear))
         = map Some [1704186000000, 1704222000000, 1704358800000]"
    unfolding utc_def log_same_day_def workoutOn_def by code_simp
  then have "map Some ts = map Some [1704186000000, 1704222000000, 1704358800000]"
    using ts by simp
  then have tsv: "ts = [1704186000000, 1704222000000, 1704358800000]"
    by (simp add: map_eq_Cons_conv)
  have same: "sameCalendarDay (sort ts ! (0 + 1)) (sort ts ! 0)"
    unfolding tsv by code_simp
  have "0 + 1 < length ts" by (simp add: tsv)
  with nth same have "days (rd ! 0) = 0" by blast
  moreover have "length rd = 2" using len by (simp add: tsv)
  ultimately show ?thesis using rd by blast
qed

text \<open>
  C5 as stated fails: of three qualifying workouts, two on Tuesday 2 January and one on
  Thursday 4 January, the code makes two rest intervals, the first of 0 days; the two
  distinct days would give the single gap of 2 days.
\<close>

theorem calculateRestDays_same_day_counterexample:
  "calculateRestDays utc (filterWorkoutsByPeriod utc log_same_day CurrentYear) ''plank''
     = Some [\<lparr>date = Date_local 2024 0 2 19 0 0, days = 0\<rparr>,
             \<lparr>date = Date_local 2024 0 4 9 0 0, days = 2\<rparr>]
   \<and> map (\<lambda>w. toDateString (Date_new utc (wdate w))) log_same_day
       = [''Tue Jan 02 2024'', ''Tue Jan 02 2024'', ''Thu Jan 04 2024'']"
  unfolding utc_def log_same_day_def workoutOn_def by code_simp








section \<open>Properties of the maximum per set position\<close>

lemma find_zip_upt:
  "List.find (\<lambda>(x, position). position = p) (zip xs [k ..< k + length xs])
     = (if k \<le> p \<and> p < k + length xs then Some (xs ! (p - k), p) else None)"
proof (induction xs arbitrary: k)
  case Nil
  then show ?case by simp
next
  case (Cons x xs)
  have upt: "[k ..< k + length (x # xs)] = k # [Suc k ..< Suc k + length xs]"
    by (simp add: upt_rec)
  show ?case
    unfolding upt using Cons.IH [of "Suc k"]
    by (auto simp add: nth_Cons' Suc_diff_le)
qed

text \<open>The set at position \<open>p\<close> is the \<open>p\<close>-th set of the exercise in stored order.\<close>

lemma setAtPosition_nth:
  "setAtPosition w e p =
     (let matching = filter (\<lambda>set. exerciseId set = e) (sets w)
      in if 1 \<le> p \<and> p \<le> length matching then Some (matching ! (p - 1)) else None)"
  using find_zip_upt [of p "filter (\<lambda>set. exerciseId set = e) (sets w)" 1]
  by (auto simp add: setAtPosition_def Let_def)












section \<open>Unparseable dates, the weekly percentage and the streaks on sample logs\<close>

text \<open>
  C4 fails on the code. For a workout whose date is a string that \<^verbatim>\<open>new Date\<close> cannot parse,
  \<^verbatim>\<open>safeParseDate\<close> returns the \<^verbatim>\<open>Invalid Date\<close>, not the current time; no period keeps the
  workout, and the consistency summary of a log that holds only this workout counts no
  workout.
\<close>

theorem safeParseDate_unparseable_string:
  assumes "Date_parse h s = None"
  shows "safeParseDate h (DateString s) = None
       \<and> safeParseDate h (DateString s) \<noteq> Some (now h)
       \<and> filterWorkoutsByPeriod h [\<lparr>wdate = DateString s, sets = ss\<rparr>] period = []
       \<and> (e \<noteq> [] \<longrightarrow>
            (\<exists>c. useExerciseConsistencyData h [\<lparr>wdate = DateString s, sets = ss\<rparr>] e period
                   = Returned c \<and> workoutCount c = 0))"
proof -
  have parse: "safeParseDate h (DateString s) = None"
    using assms by (simp add: safeParseDate_def)
  have dropped: "filterWorkoutsByPeriod h [\<lparr>wdate = DateString s, sets = ss\<rparr>] period = []"
    by (cases period) (simp_all add: filterWorkoutsByPeriod_def Let_def parse date_ge_def)
  have "calculateRestDays h [] e = Some []"
    by (simp add: calculateRestDays_def)
  then have "e \<noteq> [] \<longrightarrow>
            (\<exists>c. useExerciseConsistencyData h [\<lparr>wdate = DateString s, sets = ss\<rparr>] e period
                   = Returned c \<and> workoutCount c = 0)"
    by (simp add: useExerciseConsistencyData_def dropped)
  then show ?thesis using parse dropped by simp
qed

theorem safeParseDate_unparseable_string_witness:
  "Date_parse utc ''not-a-date'' = None
   \<and> safeParseDate utc (wdate workout_bad_date) = None
   \<and> filterWorkoutsByPeriod utc [workout_bad_date] FourMonths = []
   \<and> (\<exists>c. useExerciseConsistencyData utc [workout_bad_date] ''plank'' FourMonths = Returned c
          \<and> workoutCount c = 0)"
proof -
  have p: "Date_parse utc ''not-a-date'' = None" by (simp add: utc_def)
  have e: "''plank'' \<noteq> []" by simp
  show ?thesis
    using safeParseDate_unparseable_string
            [OF p, of "[\<lparr>exerciseId = ''plank'', reps = 10, duration = None\<rparr>]" FourMonths
              "''plank''"] p e
    unfolding workout_bad_date_def by simp
qed

text \<open>
  The monthly and the yearly percentage, when they return, lie between 0 and 100: they count
  trained days among the elapsed days.
\<close>

lemma percentageOfDays_bounded:
  assumes "percentageOfDays h workouts ds = Some p"
  shows "0 \<le> p \<and> p \<le> 100"
proof -
  define w where "w = length (filter (hasWorkoutOn h workouts) ds)"
  define n where "n = length ds"
  define q where "q = binary64 (rat_of_nat w / rat_of_nat n)"
  have n: "0 < n" and p: "p = round (binary64 (q * 100))"
    using assms unfolding percentageOfDays_def Let_def w_def n_def q_def
    by (auto split: if_splits)
  have "w \<le> n" unfolding w_def n_def by simp
  then have "rat_of_nat w \<le> rat_of_nat n" by simp
  then have "rat_of_nat w / rat_of_nat n \<le> of_int 1"
    using n by (simp add: divide_le_eq)
  moreover have q0: "0 \<le> rat_of_nat w / rat_of_nat n" by simp
  ultimately have "q \<le> of_int 1" unfolding q_def by (intro binary64_le_int) simp_all
  moreover have "0 \<le> q" unfolding q_def by (rule binary64_nonneg [OF q0])
  ultimately have ge: "0 \<le> q * 100" and le: "q * 100 \<le> of_int 100" by simp_all
  have "binary64 (q * 100) \<le> of_int 100" using ge le by (intro binary64_le_int) simp_all
  then have "round (binary64 (q * 100)) \<le> round (rat_of_int 100)" by (rule round_mono)
  moreover have "round (0::rat) \<le> round (binary64 (q * 100))"
    by (rule round_mono [OF binary64_nonneg [OF ge]])
  ultimately show ?thesis unfolding p by simp
qed

lemma month_year_percentage_bounded:
  "getCurrentMonthPercentage h workouts = Some p \<Longrightarrow> 0 \<le> p \<and> p \<le> 100"
  "getCurrentYearPercentage h workouts = Some p \<Longrightarrow> 0 \<le> p \<and> p \<le> 100"
  unfolding getCurrentMonthPercentage_def getCurrentYearPercentage_def Let_def
  by (auto simp add: bind_eq_Some_conv dest: percentageOfDays_bounded)

lemma daysUpTo_new_year:
  "daysUpTo 1704067200000 1704110400000 = Some [1704067200000]"
proof -
  have next_day: "setDate 1704067200000 (getDate 1704067200000 + 1) = 1704153600000"
    by code_simp
  show ?thesis
    by (simp add: daysUpTo.simps [of 1704067200000] daysUpTo.simps [of 1704153600000] next_day)
qed

text \<open>
  C8 fails on the code for the week. At noon of Monday 1 January 2024 one day of the week
  has passed; with workouts on Monday and on Tuesday of that week the weekly percentage is
  200, while the monthly and the yearly percentage of the same log are 100.
\<close>

theorem week_percentage_future_workout:
  "toDateString (Some (now monday_noon)) = ''Mon Jan 01 2024''
   \<and> map (\<lambda>w. toDateString (Date_new monday_noon (wdate w))) log_this_week
       = [''Mon Jan 01 2024'', ''Tue Jan 02 2024'']
   \<and> getCurrentWeekPercentage monday_noon log_this_week = Some 200
   \<and> getCurrentMonthPercentage monday_noon log_this_week = Some 100
   \<and> getCurrentYearPercentage monday_noon log_this_week = Some 100"
proof -
  have week: "toDateString (Some (now monday_noon)) = ''Mon Jan 01 2024''
     \<and> map (\<lambda>w. toDateString (Date_new monday_noon (wdate w))) log_this_week
         = [''Mon Jan 01 2024'', ''Tue Jan 02 2024'']
     \<and> getCurrentWeekPercentage monday_noon log_this_week = Some 200"
    unfolding utc_def monday_noon_def log_this_week_def workoutOn_def by code_simp
  have nowv: "now monday_noon = 1704110400000"
    unfolding utc_def monday_noon_def by simp
  have first: "Date_local (getFullYear 1704110400000) (getMonth 1704110400000) 1 0 0 0
      = 1704067200000"
    "Date_local (getFullYear 1704110400000) 0 1 0 0 0 = 1704067200000"
    by code_simp+
  have "percentageOfDays monday_noon log_this_week [1704067200000] = Some 100"
    unfolding utc_def monday_noon_def log_this_week_def workoutOn_def by code_simp
  then have "getCurrentMonthPercentage monday_noon log_this_week = Some 100
     \<and> getCurrentYearPercentage monday_noon log_this_week = Some 100"
    unfolding getCurrentMonthPercentage_def getCurrentYearPercentage_def Let_def nowv first
      daysUpTo_new_year
    by simp
  with week show ?thesis by simp
qed

text \<open>
  C10 fails on the code. At noon of Thursday 4 January 2024, with workouts on 2, 3 and
  4 January, a workout exists today and the current streak is 3; the date strings sort as
  Thu, Tue, Wed, and the longest streak is 2.
\<close>

theorem streaks_three_days:
  "list_ex (\<lambda>w. isToday utc (Date_new utc (wdate w))) log_three_days
   \<and> currentStreak utc log_three_days = 3
   \<and> map fst (uniqueDates utc log_three_days)
       = [''Thu Jan 04 2024'', ''Tue Jan 02 2024'', ''Wed Jan 03 2024'']
   \<and> longestStreak utc log_three_days = 2"
  unfolding utc_def log_three_days_def workoutOn_def by code_simp


end
